theory Spec2Isabelle
  imports Main
begin

section \<open>Errors\<close>

text \<open>
  \<^verbatim>\<open>PasskeyErrorCodes\<close> of \<^verbatim>\<open>utils/passkeyUtils.ts\<close>. The enum has no member for an
  unsupported coin, an unsupported blob version or an invalid path.
\<close>

datatype PasskeyErrorCodes =
    INVALID_BROWSER
  | INVALID_DEVICE
  | INVALID_SUBMISSION
  | INCORRECT_STATE
  | ALREADY_REGISTERED
  | DUPLICATE
  | FAILED_READ
  | FAILED_WRITE
  | USER_EXITED
  | UNAUTHORIZED
  | NOT_ALLOWED
  | UNABLE_TO_CONNECT
  | UNKNOWN

text \<open>
  What a call can throw. \<open>PasskeyError message code\<close> is the class \<^verbatim>\<open>PasskeyError\<close>
  (the optional \<^verbatim>\<open>data\<close> is never passed by the functions modelled here);
  \<open>Error message\<close> is a plain JavaScript \<^verbatim>\<open>Error\<close>, which carries a message and no code
  (\<^verbatim>\<open>new Error()\<close> has the empty message); \<open>TypeError\<close> is a property access on
  \<^verbatim>\<open>null\<close> or \<^verbatim>\<open>undefined\<close>; \<open>AssertionError\<close> is a failed \<^verbatim>\<open>assert\<close>;
  \<open>CeremonyRejected\<close> is a rejection of the platform's credential promise.
\<close>

datatype error =
    PasskeyError string PasskeyErrorCodes
  | Error string
  | TypeError
  | AssertionError string
  | CeremonyRejected

text \<open>The machine-checkable kind of an error: only a \<^verbatim>\<open>PasskeyError\<close> has a \<^verbatim>\<open>code\<close>.\<close>

fun code :: "error \<Rightarrow> PasskeyErrorCodes option" where
  "code (PasskeyError msg c) = Some c"
| "code (Error msg) = None"
| "code TypeError = None"
| "code (AssertionError msg) = None"
| "code CeremonyRejected = None"

section \<open>The seed phrase blob codec (\<^verbatim>\<open>passkeyDevice.ts\<close>)\<close>

type_synonym PasskeyBlobVersion = string

definition V1 :: PasskeyBlobVersion where
  "V1 = ''V1''"

definition SEED_VERSION_DELIMITER :: char where
  "SEED_VERSION_DELIMITER = CHR ''.''"

definition BLOB_VERSION_CURRENT :: PasskeyBlobVersion where
  "BLOB_VERSION_CURRENT = V1"

text \<open>
  \<^verbatim>\<open>String.prototype.split\<close> with a one-character separator: every occurrence of the
  separator ends a segment, and the result always has at least one segment
  (\<^verbatim>\<open>''.split('.')\<close> is \<^verbatim>\<open>['']\<close>).
\<close>

fun split_js :: "char \<Rightarrow> string \<Rightarrow> string list" where
  "split_js d [] = [[]]"
| "split_js d (c # cs) =
     (if c = d then [] # split_js d cs
      else (case split_js d cs of
              [] \<Rightarrow> [[c]]
            | seg # segs \<Rightarrow> (c # seg) # segs))"

text \<open>
  Array destructuring \<^verbatim>\<open>const [a, b] = xs\<close>: the first two elements, \<^verbatim>\<open>undefined\<close>
  (here \<open>None\<close>) where the array is too short; further elements are dropped.
\<close>

fun destructure2 :: "'a list \<Rightarrow> 'a option \<times> 'a option" where
  "destructure2 [] = (None, None)"
| "destructure2 [a] = (Some a, None)"
| "destructure2 (a # b # rest) = (Some a, Some b)"

text \<open>
  \<^verbatim>\<open>isValidSeedPhrase\<close> forwards to \<^verbatim>\<open>bip39.validateMnemonic\<close>, a function of an external
  library: it is the parameter \<open>validateMnemonic\<close> of the codec.
\<close>

definition isValidSeedPhrase :: "(string \<Rightarrow> bool) \<Rightarrow> string \<Rightarrow> bool" where
  "isValidSeedPhrase validateMnemonic seedPhrase = validateMnemonic seedPhrase"

text \<open>
  \<^verbatim>\<open>encodeSeedPhrase\<close>. \<^verbatim>\<open>utf8ToBase64\<close> is imported from \<^verbatim>\<open>@casa/common\<close> and is a
  parameter. The argument \<open>blobVersionArg\<close> is \<open>None\<close> when the caller omits
  \<^verbatim>\<open>blobVersion\<close>, which then defaults to \<^verbatim>\<open>BLOB_VERSION_CURRENT\<close>.
\<close>

definition encodeSeedPhrase ::
  "(string \<Rightarrow> bool) \<Rightarrow> (string \<Rightarrow> string) \<Rightarrow> string \<Rightarrow> PasskeyBlobVersion option
     \<Rightarrow> error + string" where
  "encodeSeedPhrase validateMnemonic utf8ToBase64 seedPhrase blobVersionArg =
     (let blobVersion = (case blobVersionArg of None \<Rightarrow> BLOB_VERSION_CURRENT | Some v \<Rightarrow> v);
          isValid = isValidSeedPhrase validateMnemonic seedPhrase
      in if \<not> isValid then Inl (Error ''Invalid seed phrase'')
         else if blobVersion = V1 then
           (let base64Seed = utf8ToBase64 seedPhrase
            in Inr (base64Seed @ [SEED_VERSION_DELIMITER] @ blobVersion))
         else Inl (Error ''Unsupported seed phrase version''))"

record decoded =
  seedPhrase :: string
  version :: "PasskeyBlobVersion option"

text \<open>The text that \<^verbatim>\<open>decodeSeedPhrase\<close> passes to \<^verbatim>\<open>console.warn\<close> for an unversioned blob.\<close>

definition UNVERSIONED_WARNING :: string where
  "UNVERSIONED_WARNING =
     ''Seed phrase is not version encoded. This device may not be able to be tracked''
     @ [CHR 0x0A] @
     ''      for updates to security vulnerabilities around generation schema.''
     @ [CHR 0x0A] @ ''      ''"

text \<open>
  \<^verbatim>\<open>decodeSeedPhrase\<close>. The first component of the result is what the call wrote with
  \<^verbatim>\<open>console.warn\<close>, the second what it returned or threw. \<^verbatim>\<open>base64ToUtf8\<close> is imported
  from \<^verbatim>\<open>@casa/common\<close> and is a parameter; it may throw.
\<close>

definition decodeSeedPhrase ::
  "(string \<Rightarrow> bool) \<Rightarrow> (string \<Rightarrow> error + string) \<Rightarrow> string
     \<Rightarrow> string list \<times> (error + decoded)" where
  "decodeSeedPhrase validateMnemonic base64ToUtf8 encodedSeedPhrase =
     (if isValidSeedPhrase validateMnemonic encodedSeedPhrase then
        ([UNVERSIONED_WARNING],
         Inr \<lparr>seedPhrase = encodedSeedPhrase, version = None\<rparr>)
      else
        (case destructure2 (split_js SEED_VERSION_DELIMITER encodedSeedPhrase) of
           (base64Seed, versionTag) \<Rightarrow>
             if versionTag \<noteq> Some V1 then ([], Inl (Error ''Unsupported seed phrase version''))
             else (case base64Seed of
                     None \<Rightarrow> ([], Inl TypeError)
                   | Some b \<Rightarrow>
                       (case base64ToUtf8 b of
                          Inl e \<Rightarrow> ([], Inl e)
                        | Inr phrase \<Rightarrow>
                            ([], Inr \<lparr>seedPhrase = phrase, version = versionTag\<rparr>)))))"

text \<open>
  The decoder as the specification words it, for comparison with the code: a blob that
  is not itself a mnemonic is cut at its \<^emph>\<open>last\<close> delimiter, the text after it is the
  version tag and everything before it the payload.
\<close>

definition split_last_delimiter :: "char \<Rightarrow> string \<Rightarrow> (string \<times> string) option" where
  "split_last_delimiter d s =
     (if d \<in> set s
      then Some (rev (tl (dropWhile (\<lambda>c. c \<noteq> d) (rev s))), rev (takeWhile (\<lambda>c. c \<noteq> d) (rev s)))
      else None)"

definition decodeSeedPhrase_last_delimiter ::
  "(string \<Rightarrow> bool) \<Rightarrow> (string \<Rightarrow> error + string) \<Rightarrow> string
     \<Rightarrow> string list \<times> (error + decoded)" where
  "decodeSeedPhrase_last_delimiter validateMnemonic base64ToUtf8 encodedSeedPhrase =
     (if validateMnemonic encodedSeedPhrase then
        ([UNVERSIONED_WARNING],
         Inr \<lparr>seedPhrase = encodedSeedPhrase, version = None\<rparr>)
      else
        (case split_last_delimiter SEED_VERSION_DELIMITER encodedSeedPhrase of
           None \<Rightarrow> ([], Inl (Error ''Unsupported seed phrase version''))
         | Some (payload, versionTag) \<Rightarrow>
             if versionTag \<noteq> V1 then ([], Inl (Error ''Unsupported seed phrase version''))
             else (case base64ToUtf8 payload of
                     Inl e \<Rightarrow> ([], Inl e)
                   | Inr phrase \<Rightarrow>
                       ([], Inr \<lparr>seedPhrase = phrase, version = Some versionTag\<rparr>))))"

section \<open>The transport encoding\<close>

text \<open>
  Modelled from the spec: \<^verbatim>\<open>utf8ToBase64\<close> and \<^verbatim>\<open>base64ToUtf8\<close> of
  \<^verbatim>\<open>@casa/common/src/lib/encodingUtils\<close> are not among the sources. The specification
  gives the blob wire format as \<^verbatim>\<open><base64(utf8(seedPhrase))>.<versionTag>\<close>, a reversible
  transport encoding. The definitions below are standard base64 with padding over the
  bytes of a string (a \<open>string\<close> is the list of its UTF-8 bytes). They instantiate the
  parameters of the codec where a concrete input is evaluated.
\<close>

definition b64char :: "nat \<Rightarrow> char" where
  "b64char n =
     (if n < 26 then char_of (n + 65)
      else if n < 52 then char_of (n + 71)
      else if n < 62 then char_of (n - 4)
      else if n = 62 then CHR ''+''
      else CHR ''/'')"

definition b64val :: "char \<Rightarrow> nat option" where
  "b64val c =
     (let k = (of_char c :: nat)
      in if 65 \<le> k \<and> k \<le> 90 then Some (k - 65)
         else if 97 \<le> k \<and> k \<le> 122 then Some (k - 71)
         else if 48 \<le> k \<and> k \<le> 57 then Some (k + 4)
         else if k = 43 then Some 62
         else if k = 47 then Some 63
         else None)"

fun base64_encode :: "string \<Rightarrow> string" where
  "base64_encode [] = []"
| "base64_encode [a] =
     (let x = (of_char a :: nat)
      in [b64char (x div 4), b64char ((x mod 4) * 16), CHR ''='', CHR ''=''])"
| "base64_encode [a, b] =
     (let x = (of_char a :: nat); y = (of_char b :: nat)
      in [b64char (x div 4), b64char ((x mod 4) * 16 + y div 16),
          b64char ((y mod 16) * 4), CHR ''=''])"
| "base64_encode (a # b # c # rest) =
     (let x = (of_char a :: nat); y = (of_char b :: nat); z = (of_char c :: nat)
      in b64char (x div 4) # b64char ((x mod 4) * 16 + y div 16)
         # b64char ((y mod 16) * 4 + z div 64) # b64char (z mod 64)
         # base64_encode rest)"

fun base64_decode :: "string \<Rightarrow> string option" where
  "base64_decode [] = Some []"
| "base64_decode (w # x # y # z # rest) =
     (if rest = [] \<and> y = CHR ''='' \<and> z = CHR ''='' then
        (case (b64val w, b64val x) of
           (Some p, Some q) \<Rightarrow> Some [char_of (p * 4 + q div 16)]
         | _ \<Rightarrow> None)
      else if rest = [] \<and> z = CHR ''='' then
        (case (b64val w, b64val x, b64val y) of
           (Some p, Some q, Some r) \<Rightarrow>
             Some [char_of (p * 4 + q div 16), char_of ((q mod 16) * 16 + r div 4)]
         | _ \<Rightarrow> None)
      else
        (case (b64val w, b64val x, b64val y, b64val z, base64_decode rest) of
           (Some p, Some q, Some r, Some s, Some bs) \<Rightarrow>
             Some (char_of (p * 4 + q div 16) # char_of ((q mod 16) * 16 + r div 4)
                   # char_of ((r mod 4) * 64 + s) # bs)
         | _ \<Rightarrow> None))"
| "base64_decode _ = None"

definition utf8ToBase64_std :: "string \<Rightarrow> string" where
  "utf8ToBase64_std s = base64_encode s"

definition base64ToUtf8_std :: "string \<Rightarrow> error + string" where
  "base64ToUtf8_std s =
     (case base64_decode s of
        None \<Rightarrow> Inl (Error ''Invalid base64 payload'')
      | Some bytes \<Rightarrow> Inr bytes)"

text \<open>
  \<^verbatim>\<open>bip39.validateMnemonic\<close> checks the words against a word list and a checksum. Where a
  concrete validator is needed, this one accepts exactly two mnemonics of the BIP39 test
  vectors.
\<close>

definition sample_mnemonic :: string where
  "sample_mnemonic =
     ''abandon abandon abandon abandon abandon abandon abandon abandon abandon abandon abandon about''"

definition sample_validateMnemonic :: "string \<Rightarrow> bool" where
  "sample_validateMnemonic s =
     (s = sample_mnemonic
      \<or> s = ''legal winner thank year wave sausage worth useful legal winner thank yellow'')"

section \<open>Extension results and the response sanitizer (\<^verbatim>\<open>utils/passkeyUtils.ts\<close>)\<close>

type_synonym buffer = string

text \<open>
  A property of a JavaScript object: the key may be missing from the object
  (\<open>Omitted\<close>), or present and holding \<^verbatim>\<open>undefined\<close>, \<^verbatim>\<open>null\<close> or a value. Reading an
  omitted property gives \<^verbatim>\<open>undefined\<close>; the two differ in that the key of the second
  exists in the object (\<^verbatim>\<open>'prf' in results\<close>).
\<close>

datatype 'a property = Omitted | Undefined | Null | Val 'a

text \<open>\<^verbatim>\<open>x == null\<close>: true of \<^verbatim>\<open>null\<close> and of \<^verbatim>\<open>undefined\<close>.\<close>

fun nullish :: "'a property \<Rightarrow> bool" where
  "nullish (Val v) = False"
| "nullish Omitted = True"
| "nullish Undefined = True"
| "nullish Null = True"

text \<open>
  The shape the code casts \<^verbatim>\<open>clientExtensionResults\<close> to:
  \<^verbatim>\<open>{ prf?: { results?: { first?: Buffer } }, largeBlob?: { blob?: Buffer } }\<close>.
  Inside a sub-result, \<open>None\<close> stands for a member that is \<^verbatim>\<open>null\<close> or \<^verbatim>\<open>undefined\<close>
  (the code reads them with \<^verbatim>\<open>== null\<close> only). \<open>otherExtensions\<close> holds the outputs of
  any other extension. The member \<^verbatim>\<open>prf\<close> is the field \<open>prf_field\<close>.
\<close>

record prf_results =
  first :: "buffer option"

record prf_output =
  results :: "prf_results option"

record largeBlob_output =
  blob :: "buffer option"

record extension_results =
  prf_field :: "prf_output property"
  largeBlob :: "largeBlob_output property"
  otherExtensions :: "(string \<times> string) list"

text \<open>\<^verbatim>\<open>largeBlob?.blob\<close> and \<^verbatim>\<open>prf?.results?.first\<close>, with \<open>None\<close> for a nullish result.\<close>

fun largeBlob_blob :: "largeBlob_output property \<Rightarrow> buffer option" where
  "largeBlob_blob (Val lb) = blob lb"
| "largeBlob_blob Omitted = None"
| "largeBlob_blob Undefined = None"
| "largeBlob_blob Null = None"

fun prf_results_first :: "prf_output property \<Rightarrow> buffer option" where
  "prf_results_first (Val p) = (case results p of None \<Rightarrow> None | Some r \<Rightarrow> first r)"
| "prf_results_first Omitted = None"
| "prf_results_first Undefined = None"
| "prf_results_first Null = None"

text \<open>
  The extension results are an object that the authentication response refers to: the
  response holds its address, and the heap maps addresses to the objects. The other
  members of the response are strings.
\<close>

type_synonym addr = nat

type_synonym heap = "addr \<Rightarrow> extension_results"

record assertion_response =
  clientDataJSON :: string
  authenticatorData :: string
  signature :: string

record AuthenticationResponseJSON =
  cred_id :: string
  rawId :: string
  response :: assertion_response
  clientExtensionResults :: addr
  cred_type :: string

record PasskeySupportOutputs =
  largeBlobSupported :: bool
  hasLargeBlob :: bool
  prfSupported :: bool
  prfSalt :: "string option"

text \<open>
  \<^verbatim>\<open>SanitizedAuthenticationResponse\<close>; its optional members \<^verbatim>\<open>largeBlob\<close> and \<^verbatim>\<open>prf\<close>
  are \<open>result_largeBlob\<close> and \<open>result_prf\<close>.
\<close>

record SanitizedAuthenticationResponse =
  sanitizedAuthenticationResponse :: AuthenticationResponseJSON
  result_largeBlob :: "string option"
  result_prf :: "string option"

text \<open>\<^verbatim>\<open>support?.hasLargeBlob === true\<close> and \<^verbatim>\<open>support?.prfSupported === true\<close>.\<close>

definition claims_hasLargeBlob :: "PasskeySupportOutputs option \<Rightarrow> bool" where
  "claims_hasLargeBlob support = (case support of None \<Rightarrow> False | Some s \<Rightarrow> hasLargeBlob s)"

definition claims_prfSupported :: "PasskeySupportOutputs option \<Rightarrow> bool" where
  "claims_prfSupported support = (case support of None \<Rightarrow> False | Some s \<Rightarrow> prfSupported s)"

text \<open>
  \<^verbatim>\<open>sanitizeAuthenticationResponse\<close>. The call takes the heap and returns the heap it
  leaves behind together with what it returned or threw. \<^verbatim>\<open>arrayBufferToPlaintext\<close> and
  \<^verbatim>\<open>arrayBufferToBase64String\<close> are imported from \<^verbatim>\<open>@casa/common\<close> and are parameters.
  The two assignments \<^verbatim>\<open>clientExtensionResults.prf = undefined\<close> and
  \<^verbatim>\<open>clientExtensionResults.largeBlob = undefined\<close> write to the object the response
  refers to; the object spread copies the members of the response, so the copy refers to
  the same object. A \<^verbatim>\<open>Buffer\<close> is an object and therefore truthy, so
  \<^verbatim>\<open>if (largeBlob?.blob)\<close> holds whenever the blob is there.
\<close>

definition sanitizeAuthenticationResponse ::
  "(buffer \<Rightarrow> string) \<Rightarrow> (buffer \<Rightarrow> string) \<Rightarrow> heap \<Rightarrow> AuthenticationResponseJSON
     \<Rightarrow> PasskeySupportOutputs option \<Rightarrow> heap \<times> (error + SanitizedAuthenticationResponse)" where
  "sanitizeAuthenticationResponse arrayBufferToPlaintext arrayBufferToBase64String
       h authenticationResponse support =
     (let a = clientExtensionResults authenticationResponse;
          prf0 = prf_field (h a);
          largeBlob0 = largeBlob (h a)
      in if claims_hasLargeBlob support \<and> largeBlob_blob largeBlob0 = None then
           (h, Inl (PasskeyError
                      ''Failed to read large blob from large-blob-holding credential''
                      FAILED_READ))
         else if claims_prfSupported support \<and> prf_results_first prf0 = None then
           (h, Inl (PasskeyError ''Failed to read PRF from PRF-holding credential'' FAILED_WRITE))
         else
           (let h1 = h(a := (h a)\<lparr>prf_field := Undefined\<rparr>);
                h2 = h1(a := (h1 a)\<lparr>largeBlob := Undefined\<rparr>)
            in if prf_field (h2 a) \<noteq> Undefined then
                 (h2, Inl (AssertionError ''clientExtensionResults PRF cannot leak to server''))
               else if largeBlob (h2 a) \<noteq> Undefined then
                 (h2, Inl (AssertionError
                             ''clientExtensionResults largeBlob cannot leak to server''))
               else
                 (h2, Inr \<lparr>sanitizedAuthenticationResponse =
                              authenticationResponse\<lparr>clientExtensionResults := a\<rparr>,
                            result_largeBlob =
                              map_option arrayBufferToPlaintext (largeBlob_blob largeBlob0),
                            result_prf =
                              map_option arrayBufferToBase64String (prf_results_first prf0)\<rparr>)))"

text \<open>
  \<^verbatim>\<open>readLargeBlob\<close>, from the point where the credential promise settles. The argument is
  the outcome of \<^verbatim>\<open>navigator.credentials.get\<close>: \<open>Inl e\<close> when the promise rejects,
  \<open>Inr None\<close> when it resolves to \<^verbatim>\<open>null\<close>, \<open>Inr (Some r)\<close> when it resolves to a
  credential whose \<^verbatim>\<open>getClientExtensionResults()\<close> is \<open>r\<close>. Building the request is not
  part of the model.
\<close>

definition readLargeBlob ::
  "(buffer \<Rightarrow> string) \<Rightarrow> error + extension_results option \<Rightarrow> error + string" where
  "readLargeBlob arrayBufferToPlaintext assertion =
     (case assertion of
        Inl e \<Rightarrow> Inl e
      | Inr None \<Rightarrow> Inl TypeError
      | Inr (Some extResults) \<Rightarrow>
          (case largeBlob extResults of
             Val lb \<Rightarrow>
               (case blob lb of
                  None \<Rightarrow> Inl (PasskeyError ''Large blob empty'' FAILED_READ)
                | Some blobBuffer \<Rightarrow>
                    (let blobString = arrayBufferToPlaintext blobBuffer
                     in if blobString = [] then
                          Inl (PasskeyError ''Large blob decoded to empty string'' FAILED_READ)
                        else Inr blobString))
           | _ \<Rightarrow> Inl (PasskeyError ''Unable to read large blob'' FAILED_READ)))"

text \<open>
  Modelled from the spec: \<^verbatim>\<open>arrayBufferToPlaintext\<close> and \<^verbatim>\<open>arrayBufferToBase64String\<close> of
  \<^verbatim>\<open>@casa/common/src/lib/encodingUtils\<close> are not among the sources. The specification
  has the blob "transport-decoded to plaintext" and the pseudo-random-function output
  "base-encoded"; with a string being the list of its UTF-8 bytes, the first is the
  identity and the second is base64.
\<close>

definition arrayBufferToPlaintext_std :: "buffer \<Rightarrow> string" where
  "arrayBufferToPlaintext_std b = b"

definition arrayBufferToBase64String_std :: "buffer \<Rightarrow> string" where
  "arrayBufferToBase64String_std b = base64_encode b"

text \<open>
  Extension results for evaluating the sanitizer and the reader on concrete input: one
  with both secret outputs, one with none (a third extension is there in both).
\<close>

definition sample_results :: extension_results where
  "sample_results =
     \<lparr>prf_field = Val \<lparr>results = Some \<lparr>first = Some ''prf-secret''\<rparr>\<rparr>,
      largeBlob = Val \<lparr>blob = Some ''QUJD.V1''\<rparr>,
      otherExtensions = [(''credProps'', ''rk'')]\<rparr>"

definition sample_results_bare :: extension_results where
  "sample_results_bare =
     \<lparr>prf_field = Omitted, largeBlob = Omitted, otherExtensions = [(''credProps'', ''rk'')]\<rparr>"

definition sample_heap :: heap where
  "sample_heap = (\<lambda>a. if a = 0 then sample_results else sample_results_bare)"

definition sample_support :: PasskeySupportOutputs where
  "sample_support =
     \<lparr>largeBlobSupported = True, hasLargeBlob = True, prfSupported = True, prfSalt = None\<rparr>"

definition sample_auth :: "addr \<Rightarrow> AuthenticationResponseJSON" where
  "sample_auth a =
     \<lparr>cred_id = ''Y3JlZA'', rawId = ''Y3JlZA'',
      response = \<lparr>clientDataJSON = ''e30'', authenticatorData = ''AAAA'', signature = ''MEQ''\<rparr>,
      clientExtensionResults = a, cred_type = ''public-key''\<rparr>"

section \<open>Coin dispatch and key export (\<^verbatim>\<open>passkeyDevice.ts\<close>)\<close>

text \<open>
  \<^verbatim>\<open>String.prototype.toUpperCase\<close> on ASCII text, which coin identifiers are: the letters
  \<^verbatim>\<open>a\<close> to \<^verbatim>\<open>z\<close> are mapped to \<^verbatim>\<open>A\<close> to \<^verbatim>\<open>Z\<close>, every other character is kept.
\<close>

definition toUpperCase_char :: "char \<Rightarrow> char" where
  "toUpperCase_char c =
     (let k = (of_char c :: nat)
      in if 97 \<le> k \<and> k \<le> 122 then char_of (k - 32) else c)"

definition toUpperCase :: "string \<Rightarrow> string" where
  "toUpperCase s = map toUpperCase_char s"

text \<open>
  The constant \<^verbatim>\<open>COIN\<close> of \<^verbatim>\<open>./types/coin\<close> is not among the sources; the code uses its
  six members, and the table is a parameter of \<open>signTransaction\<close>.
\<close>

record COIN_table =
  btc :: string
  tbtc :: string
  eth :: string
  teth :: string
  ethC :: string
  tethC :: string

text \<open>
  \<^verbatim>\<open>SignTransactionParams\<close>, without the members that are opaque to the dispatch
  (\<^verbatim>\<open>device\<close>, \<^verbatim>\<open>authenticationOptions\<close>, \<^verbatim>\<open>toSign\<close>, \<^verbatim>\<open>serverHost\<close>, \<^verbatim>\<open>token\<close>).
\<close>

record SignTransactionParams =
  coin :: string
  psbt :: "string option"
  safeAddress :: "string option"
  keyPathAddress :: "int option"
  keyPathPurpose :: int
  keyPathPurposeIsHardened :: bool
  keyPathCoinType :: int
  keyPathAccount :: int

text \<open>The result type \<^verbatim>\<open>string | string[]\<close>.\<close>

datatype signed = Signature string | Signatures "string list"

text \<open>
  \<^verbatim>\<open>signTransaction\<close>. The two signing paths run a ceremony and call external
  cryptography; they are the parameters \<open>getSignedBitcoinTransaction\<close> and
  \<open>getGnosisSafeSignature\<close>. The statement after the \<^verbatim>\<open>switch\<close> is
  \<^verbatim>\<open>throw new Error()\<close>.
\<close>

definition signTransaction ::
  "COIN_table \<Rightarrow> (SignTransactionParams \<Rightarrow> error + signed)
     \<Rightarrow> (SignTransactionParams \<Rightarrow> error + signed) \<Rightarrow> SignTransactionParams
     \<Rightarrow> error + signed" where
  "signTransaction COIN getSignedBitcoinTransaction getGnosisSafeSignature params =
     (let c = toUpperCase (coin params)
      in if c = btc COIN \<or> c = tbtc COIN then getSignedBitcoinTransaction params
         else if c = ethC COIN \<or> c = tethC COIN \<or> c = eth COIN \<or> c = teth COIN then
           getGnosisSafeSignature params
         else Inl (Error []))"

text \<open>The six tags the \<^verbatim>\<open>switch\<close> knows.\<close>

definition known_coins :: "COIN_table \<Rightarrow> string set" where
  "known_coins COIN = {btc COIN, tbtc COIN, ethC COIN, tethC COIN, eth COIN, teth COIN}"

text \<open>
  A table for evaluating the dispatch on concrete input. \<^verbatim>\<open>'BTC'\<close> and \<^verbatim>\<open>'ETH'\<close> are
  the identifiers the web wallet passes; the other four follow the same pattern.
\<close>

definition sample_COIN :: COIN_table where
  "sample_COIN =
     \<lparr>btc = ''BTC'', tbtc = ''TBTC'', eth = ''ETH'', teth = ''TETH'',
      ethC = ''ETHC'', tethC = ''TETHC''\<rparr>"

definition sample_params :: "string \<Rightarrow> SignTransactionParams" where
  "sample_params c =
     \<lparr>coin = c, psbt = None, safeAddress = None, keyPathAddress = None,
      keyPathPurpose = 84, keyPathPurposeIsHardened = True, keyPathCoinType = 0,
      keyPathAccount = 0\<rparr>"

definition sample_btc_path :: "SignTransactionParams \<Rightarrow> error + signed" where
  "sample_btc_path params = Inr (Signatures [''30440220''])"

definition sample_eth_path :: "SignTransactionParams \<Rightarrow> error + signed" where
  "sample_eth_path params = Inr (Signature ''1b'')"

text \<open>A template literal prints an integer in decimal.\<close>

fun string_of_nat :: "nat \<Rightarrow> string" where
  "string_of_nat n =
     (if n < 10 then [char_of (48 + n)]
      else string_of_nat (n div 10) @ [char_of (48 + n mod 10)])"

definition string_of_int :: "int \<Rightarrow> string" where
  "string_of_int i =
     (if i < 0 then CHR ''-'' # string_of_nat (nat (- i)) else string_of_nat (nat i))"

text \<open>
  The calls into \<^verbatim>\<open>bip39\<close> and \<^verbatim>\<open>bip32\<close> that \<^verbatim>\<open>exportXpub\<close> makes, as functions on
  abstract seeds and nodes: \<open>toXpub node\<close> is \<^verbatim>\<open>node.neutered().toBase58()\<close>.
\<close>

record ('seed, 'node) hd_library =
  mnemonicToSeedSync :: "string \<Rightarrow> 'seed"
  fromSeed :: "'seed \<Rightarrow> 'node"
  derivePath :: "'node \<Rightarrow> string \<Rightarrow> 'node"
  toXpub :: "'node \<Rightarrow> string"

text \<open>
  The argument of \<^verbatim>\<open>exportXpub\<close>. \<open>hardenedKeyPathPurpose\<close> is \<open>None\<close> for \<^verbatim>\<open>null\<close>,
  \<^verbatim>\<open>undefined\<close> or a missing member, and \<open>Some n\<close> for the integer \<open>n\<close>.
\<close>

record 'o exportXpub_params =
  hardenedKeyPathPurpose :: "int option"
  authenticationOptions :: 'o
  credentialId :: string

record PasskeyDeviceXpubResponse =
  xpub :: string
  authenticationResponse :: AuthenticationResponseJSON
  blobVersion :: PasskeyBlobVersion

text \<open>\<^verbatim>\<open>!params.hardenedKeyPathPurpose\<close>: true of \<^verbatim>\<open>null\<close>, \<^verbatim>\<open>undefined\<close> and \<^verbatim>\<open>0\<close>.\<close>

fun falsy :: "int option \<Rightarrow> bool" where
  "falsy None = True"
| "falsy (Some n) = (n = 0)"

text \<open>
  \<^verbatim>\<open>exportXpub\<close>. \<open>generated\<close> is the mnemonic that \<^verbatim>\<open>bip39.generateMnemonic()\<close> returns in
  this call, \<open>writeLargeBlob\<close> the outcome of the write ceremony for the given options,
  credential and blob.
\<close>

definition exportXpub ::
  "(string \<Rightarrow> bool) \<Rightarrow> (string \<Rightarrow> string)
     \<Rightarrow> ('o \<Rightarrow> string \<Rightarrow> string \<Rightarrow> error + AuthenticationResponseJSON)
     \<Rightarrow> ('seed, 'node) hd_library \<Rightarrow> string \<Rightarrow> 'o exportXpub_params
     \<Rightarrow> error + PasskeyDeviceXpubResponse" where
  "exportXpub validateMnemonic utf8ToBase64 writeLargeBlob lib generated params =
     (case encodeSeedPhrase validateMnemonic utf8ToBase64 generated (Some BLOB_VERSION_CURRENT) of
        Inl e \<Rightarrow> Inl e
      | Inr encodedBlob \<Rightarrow>
          (case writeLargeBlob (authenticationOptions params) (credentialId params) encodedBlob of
             Inl e \<Rightarrow> Inl e
           | Inr authResponse \<Rightarrow>
               (let seed = mnemonicToSeedSync lib generated;
                    node = fromSeed lib seed
                in if falsy (hardenedKeyPathPurpose params) then
                     Inr \<lparr>xpub = toXpub lib node,
                          authenticationResponse = authResponse,
                          blobVersion = BLOB_VERSION_CURRENT\<rparr>
                   else
                     (let derivedNode =
                            derivePath lib node
                              (''m/'' @ string_of_int (the (hardenedKeyPathPurpose params))
                               @ [CHR 0x27])
                      in Inr \<lparr>xpub = toXpub lib derivedNode,
                              authenticationResponse = authResponse,
                              blobVersion = BLOB_VERSION_CURRENT\<rparr>))))"

text \<open>
  A stand-in for the key library on concrete input: seeds and nodes are the texts that
  describe them, so that different derivations give different keys.
\<close>

definition sample_hd :: "(string, string) hd_library" where
  "sample_hd =
     \<lparr>mnemonicToSeedSync = (\<lambda>m. ''seed('' @ m @ '')''),
      fromSeed = (\<lambda>s. ''m<'' @ s @ ''>''),
      derivePath = (\<lambda>n p. n @ '':'' @ p),
      toXpub = (\<lambda>n. ''xpub:'' @ n)\<rparr>"

definition sample_writeLargeBlob ::
  "unit \<Rightarrow> string \<Rightarrow> string \<Rightarrow> error + AuthenticationResponseJSON" where
  "sample_writeLargeBlob opts cid b = Inr (sample_auth 0)"

definition sample_export :: "int option \<Rightarrow> unit exportXpub_params" where
  "sample_export purpose =
     \<lparr>hardenedKeyPathPurpose = purpose, authenticationOptions = (), credentialId = ''Y3JlZA''\<rparr>"

section \<open>Facts about splitting\<close>

lemma split_js_nonempty: "split_js d s \<noteq> []"
  by (induction s) (auto split: list.splits)

lemma split_js_no_delimiter: "d \<notin> set p \<Longrightarrow> split_js d p = [p]"
  by (induction p) auto

lemma split_js_prefix: "d \<notin> set p \<Longrightarrow> split_js d (p @ d # r) = p # split_js d r"
  by (induction p) auto

lemma hd_split_js: "hd (split_js d s) = takeWhile (\<lambda>c. c \<noteq> d) s"
  by (induction s) (auto split: list.splits simp: split_js_nonempty)

lemma destructure2_split_js:
  assumes "d \<notin> set p"
  shows "destructure2 (split_js d (p @ d # r)) = (Some p, Some (takeWhile (\<lambda>c. c \<noteq> d) r))"
proof -
  obtain seg segs where segs: "split_js d r = seg # segs"
    using split_js_nonempty [of d r] by (cases "split_js d r") auto
  then have "seg = takeWhile (\<lambda>c. c \<noteq> d) r"
    using hd_split_js [of d r] by simp
  with segs assms show ?thesis
    by (simp add: split_js_prefix)
qed

section \<open>Facts about the transport encoding\<close>

lemma of_char_lt_256: "(of_char c :: nat) < 256"
proof -
  have "(of_char c :: nat) mod 256 = of_char c" by simp
  then show ?thesis by (metis mod_less_divisor zero_less_numeral)
qed

lemma b64val_b64char: "n < 64 \<Longrightarrow> b64val (b64char n) = Some n"
  by (auto simp: b64val_def b64char_def Let_def)

lemma b64char_code:
  "n < 64 \<Longrightarrow> (of_char (b64char n) :: nat) \<in> {43, 47} \<union> {48..57} \<union> {65..90} \<union> {97..122}"
  by (auto simp: b64char_def)

lemma b64char_not_pad: "n < 64 \<Longrightarrow> b64char n \<noteq> CHR ''=''"
  using b64char_code [of n] by auto

lemma b64char_not_dot: "n < 64 \<Longrightarrow> b64char n \<noteq> CHR ''.''"
  using b64char_code [of n] by auto

lemma div_mod_digit:
  fixes q r b :: nat
  assumes "r < b"
  shows "(q * b + r) div b = q" and "(q * b + r) mod b = r"
  using assms by simp_all

lemma sextets:
  fixes x y z :: nat
  assumes "x < 256" "y < 256" "z < 256"
  shows "x div 4 < 64" "(x mod 4) * 16 < 64" "(x mod 4) * 16 + y div 16 < 64"
        "(y mod 16) * 4 < 64" "(y mod 16) * 4 + z div 64 < 64" "z mod 64 < 64"
  using assms by auto

lemma octets:
  fixes x y z :: nat
  assumes "y < 256" "z < 256"
  shows "(x div 4) * 4 + ((x mod 4) * 16) div 16 = x"
    and "(x div 4) * 4 + ((x mod 4) * 16 + y div 16) div 16 = x"
    and "(((x mod 4) * 16 + y div 16) mod 16) * 16 + ((y mod 16) * 4) div 4 = y"
    and "(((x mod 4) * 16 + y div 16) mod 16) * 16 + ((y mod 16) * 4 + z div 64) div 4 = y"
    and "(((y mod 16) * 4 + z div 64) mod 4) * 64 + z mod 64 = z"
proof -
  have y16: "y div 16 < 16" and z64: "z div 64 < 4"
    using assms by simp_all
  show "(x div 4) * 4 + ((x mod 4) * 16) div 16 = x"
    by simp
  show "(x div 4) * 4 + ((x mod 4) * 16 + y div 16) div 16 = x"
    by (simp only: div_mod_digit [OF y16]) simp
  show "(((x mod 4) * 16 + y div 16) mod 16) * 16 + ((y mod 16) * 4) div 4 = y"
    by (simp only: div_mod_digit [OF y16]) simp
  show "(((x mod 4) * 16 + y div 16) mod 16) * 16 + ((y mod 16) * 4 + z div 64) div 4 = y"
    by (simp only: div_mod_digit [OF y16] div_mod_digit [OF z64]) simp
  show "(((y mod 16) * 4 + z div 64) mod 4) * 64 + z mod 64 = z"
    by (simp only: div_mod_digit [OF z64]) simp
qed

lemma decode_quad:
  assumes "s1 < 64" "s2 < 64" "s3 < 64" "s4 < 64"
  shows "base64_decode (b64char s1 # b64char s2 # b64char s3 # b64char s4 # rest) =
           (case base64_decode rest of
              None \<Rightarrow> None
            | Some bs \<Rightarrow> Some (char_of (s1 * 4 + s2 div 16) # char_of ((s2 mod 16) * 16 + s3 div 4)
                   # char_of ((s3 mod 4) * 64 + s4) # bs))"
  by (simp only: base64_decode.simps b64val_b64char [OF assms(1)] b64val_b64char [OF assms(2)]
        b64val_b64char [OF assms(3)] b64val_b64char [OF assms(4)]
        b64char_not_pad [OF assms(3)] b64char_not_pad [OF assms(4)]
        simp_thms if_False prod.case option.case)

lemma decode_pad1:
  assumes "s1 < 64" "s2 < 64" "s3 < 64"
  shows "base64_decode [b64char s1, b64char s2, b64char s3, CHR ''=''] =
           Some [char_of (s1 * 4 + s2 div 16), char_of ((s2 mod 16) * 16 + s3 div 4)]"
  by (simp only: base64_decode.simps b64val_b64char [OF assms(1)] b64val_b64char [OF assms(2)]
        b64val_b64char [OF assms(3)] b64char_not_pad [OF assms(3)]
        simp_thms if_False if_True prod.case option.case)

lemma decode_pad2:
  assumes "s1 < 64" "s2 < 64"
  shows "base64_decode [b64char s1, b64char s2, CHR ''='', CHR ''=''] =
           Some [char_of (s1 * 4 + s2 div 16)]"
  by (simp only: base64_decode.simps b64val_b64char [OF assms(1)] b64val_b64char [OF assms(2)]
        simp_thms if_False if_True prod.case option.case)

text \<open>Decoding undoes encoding, for every byte string.\<close>

lemma base64_decode_encode: "base64_decode (base64_encode bs) = Some bs"
proof (induction bs rule: base64_encode.induct)
  case 1
  show ?case by simp
next
  case (2 a)
  define x where "x = (of_char a :: nat)"
  have x: "x < 256" by (simp add: x_def of_char_lt_256)
  have enc: "base64_encode [a] = [b64char (x div 4), b64char ((x mod 4) * 16), CHR ''='', CHR ''='']"
    by (simp add: x_def Let_def)
  have "char_of ((x div 4) * 4 + ((x mod 4) * 16) div 16) = a"
    by (simp only: octets(1) [OF x x]) (simp add: x_def)
  then show ?case
    by (simp only: enc decode_pad2 [OF sextets(1) [OF x x x] sextets(2) [OF x x x]])
next
  case (3 a b)
  define x where "x = (of_char a :: nat)"
  define y where "y = (of_char b :: nat)"
  have x: "x < 256" and y: "y < 256" by (simp_all add: x_def y_def of_char_lt_256)
  have enc: "base64_encode [a, b] =
      [b64char (x div 4), b64char ((x mod 4) * 16 + y div 16), b64char ((y mod 16) * 4), CHR ''='']"
    by (simp add: x_def y_def Let_def)
  have "char_of ((x div 4) * 4 + ((x mod 4) * 16 + y div 16) div 16) = a"
    and "char_of ((((x mod 4) * 16 + y div 16) mod 16) * 16 + ((y mod 16) * 4) div 4) = b"
    by (simp_all only: octets [OF y y]) (simp_all add: x_def y_def)
  then show ?case
    by (simp only: enc decode_pad1 [OF sextets(1) [OF x y y] sextets(3) [OF x y y] sextets(4) [OF x y y]])
next
  case (4 a b c rest)
  define x where "x = (of_char a :: nat)"
  define y where "y = (of_char b :: nat)"
  define z where "z = (of_char c :: nat)"
  have x: "x < 256" and y: "y < 256" and z: "z < 256"
    by (simp_all add: x_def y_def z_def of_char_lt_256)
  have enc: "base64_encode (a # b # c # rest) =
      b64char (x div 4) # b64char ((x mod 4) * 16 + y div 16)
      # b64char ((y mod 16) * 4 + z div 64) # b64char (z mod 64) # base64_encode rest"
    by (simp add: x_def y_def z_def Let_def)
  have "char_of ((x div 4) * 4 + ((x mod 4) * 16 + y div 16) div 16) = a"
    and "char_of ((((x mod 4) * 16 + y div 16) mod 16) * 16 + ((y mod 16) * 4 + z div 64) div 4) = b"
    and "char_of ((((y mod 16) * 4 + z div 64) mod 4) * 64 + z mod 64) = c"
    by (simp_all only: octets [OF y z]) (simp_all add: x_def y_def z_def)
  then show ?case
    by (simp only: enc "4.IH" option.case
          decode_quad [OF sextets(1) [OF x y z] sextets(3) [OF x y z] sextets(5) [OF x y z] sextets(6) [OF x y z]])
qed

text \<open>The encoding never produces the delimiter of the blob format.\<close>

lemma base64_encode_no_dot: "CHR ''.'' \<notin> set (base64_encode bs)"
proof (induction bs rule: base64_encode.induct)
  case 1
  show ?case by simp
next
  case (2 a)
  define x where "x = (of_char a :: nat)"
  have x: "x < 256" by (simp add: x_def of_char_lt_256)
  have enc: "base64_encode [a] = [b64char (x div 4), b64char ((x mod 4) * 16), CHR ''='', CHR ''='']"
    by (simp add: x_def Let_def)
  show ?case
    using b64char_not_dot [OF sextets(1) [OF x x x]] b64char_not_dot [OF sextets(2) [OF x x x]]
    by (simp only: enc) auto
next
  case (3 a b)
  define x where "x = (of_char a :: nat)"
  define y where "y = (of_char b :: nat)"
  have x: "x < 256" and y: "y < 256" by (simp_all add: x_def y_def of_char_lt_256)
  have enc: "base64_encode [a, b] =
      [b64char (x div 4), b64char ((x mod 4) * 16 + y div 16), b64char ((y mod 16) * 4), CHR ''='']"
    by (simp add: x_def y_def Let_def)
  show ?case
    using b64char_not_dot [OF sextets(1) [OF x y y]] b64char_not_dot [OF sextets(3) [OF x y y]]
      b64char_not_dot [OF sextets(4) [OF x y y]]
    by (simp only: enc) auto
next
  case (4 a b c rest)
  define x where "x = (of_char a :: nat)"
  define y where "y = (of_char b :: nat)"
  define z where "z = (of_char c :: nat)"
  have x: "x < 256" and y: "y < 256" and z: "z < 256"
    by (simp_all add: x_def y_def z_def of_char_lt_256)
  have enc: "base64_encode (a # b # c # rest) =
      b64char (x div 4) # b64char ((x mod 4) * 16 + y div 16)
      # b64char ((y mod 16) * 4 + z div 64) # b64char (z mod 64) # base64_encode rest"
    by (simp add: x_def y_def z_def Let_def)
  show ?case
    using b64char_not_dot [OF sextets(1) [OF x y z]] b64char_not_dot [OF sextets(3) [OF x y z]]
      b64char_not_dot [OF sextets(5) [OF x y z]] b64char_not_dot [OF sextets(6) [OF x y z]] "4.IH"
    by (simp only: enc) auto
qed

lemma std_codec_inverse: "base64ToUtf8_std (utf8ToBase64_std s) = Inr s"
  by (simp add: base64ToUtf8_std_def utf8ToBase64_std_def base64_decode_encode)

lemma std_codec_no_delimiter: "SEED_VERSION_DELIMITER \<notin> set (utf8ToBase64_std s)"
  by (simp add: utf8ToBase64_std_def SEED_VERSION_DELIMITER_def base64_encode_no_dot)

lemma sample_mnemonics_no_delimiter:
  "sample_validateMnemonic s \<Longrightarrow> SEED_VERSION_DELIMITER \<notin> set s"
  by (auto simp: sample_validateMnemonic_def sample_mnemonic_def SEED_VERSION_DELIMITER_def)

section \<open>Runs on the sample data\<close>

lemma sample_sanitize_run:
  "sanitizeAuthenticationResponse arrayBufferToPlaintext_std arrayBufferToBase64String_std
       sample_heap (sample_auth 0) (Some sample_support) =
     (sample_heap(0 := \<lparr>prf_field = Undefined, largeBlob = Undefined,
                          otherExtensions = [(''credProps'', ''rk'')]\<rparr>),
      Inr \<lparr>sanitizedAuthenticationResponse = sample_auth 0,
           result_largeBlob = Some ''QUJD.V1'',
           result_prf = Some ''cHJmLXNlY3JldA==''\<rparr>)"
proof -
  have "base64_encode ''prf-secret'' = ''cHJmLXNlY3JldA==''"
    by code_simp
  then show ?thesis
    by (simp add: sanitizeAuthenticationResponse_def Let_def sample_heap_def sample_auth_def
          sample_support_def sample_results_def claims_hasLargeBlob_def claims_prfSupported_def
          arrayBufferToPlaintext_std_def arrayBufferToBase64String_std_def)
qed

lemma sample_doge_unknown: "toUpperCase ''doge'' \<notin> known_coins sample_COIN"
  by code_simp

lemma sample_export_run:
  "exportXpub sample_validateMnemonic utf8ToBase64_std sample_writeLargeBlob sample_hd
       sample_mnemonic (sample_export (Some 0)) =
     Inr \<lparr>xpub = ''xpub:m<seed('' @ sample_mnemonic @ '')>'',
          authenticationResponse = sample_auth 0,
          blobVersion = V1\<rparr>"
  by (simp add: exportXpub_def encodeSeedPhrase_def isValidSeedPhrase_def Let_def
        sample_validateMnemonic_def sample_writeLargeBlob_def sample_hd_def sample_export_def
        BLOB_VERSION_CURRENT_def)

section \<open>The response sanitizer: secrets are overwritten with a marker\<close>

text \<open>
  Claim C1. Whenever the capability checks pass, \<^verbatim>\<open>sanitizeAuthenticationResponse\<close>
  returns a sanitized copy, and in the extension results that this copy refers to both
  the \<^verbatim>\<open>prf\<close> and the \<^verbatim>\<open>largeBlob\<close> member hold the marker \<^verbatim>\<open>undefined\<close>: the keys are
  present with that value, they are not removed from the object. This holds in particular
  for every result that carries a non-empty \<^verbatim>\<open>prf\<close> or \<^verbatim>\<open>largeBlob\<close> output.
\<close>

theorem sanitize_marks_secrets:
  assumes "\<not> (claims_hasLargeBlob support
               \<and> largeBlob_blob (largeBlob (h (clientExtensionResults r))) = None)"
    and "\<not> (claims_prfSupported support
             \<and> prf_results_first (prf_field (h (clientExtensionResults r))) = None)"
  shows "\<exists>h' res.
           sanitizeAuthenticationResponse toPlaintext toBase64String h r support = (h', Inr res)
           \<and> prf_field (h' (clientExtensionResults (sanitizedAuthenticationResponse res))) = Undefined
           \<and> largeBlob (h' (clientExtensionResults (sanitizedAuthenticationResponse res))) = Undefined
           \<and> prf_field (h' (clientExtensionResults (sanitizedAuthenticationResponse res))) \<noteq> Omitted
           \<and> largeBlob (h' (clientExtensionResults (sanitizedAuthenticationResponse res))) \<noteq> Omitted"
  using assms by (simp add: sanitizeAuthenticationResponse_def Let_def)

text \<open>The sample response with both secret outputs, under a profile claiming both.\<close>

theorem sanitize_marks_secrets_witness:
  "\<exists>h' res.
     sanitizeAuthenticationResponse arrayBufferToPlaintext_std arrayBufferToBase64String_std
         sample_heap (sample_auth 0) (Some sample_support) = (h', Inr res)
     \<and> prf_field (h' (clientExtensionResults (sanitizedAuthenticationResponse res))) = Undefined
     \<and> largeBlob (h' (clientExtensionResults (sanitizedAuthenticationResponse res))) = Undefined
     \<and> prf_field (h' (clientExtensionResults (sanitizedAuthenticationResponse res))) \<noteq> Omitted
     \<and> largeBlob (h' (clientExtensionResults (sanitizedAuthenticationResponse res))) \<noteq> Omitted"
proof -
  have blob_there:
    "\<not> (claims_hasLargeBlob (Some sample_support)
        \<and> largeBlob_blob (largeBlob (sample_heap (clientExtensionResults (sample_auth 0)))) = None)"
    by (simp add: sample_heap_def sample_auth_def sample_results_def)
  have prf_there:
    "\<not> (claims_prfSupported (Some sample_support)
        \<and> prf_results_first (prf_field (sample_heap (clientExtensionResults (sample_auth 0)))) = None)"
    by (simp add: sample_heap_def sample_auth_def sample_results_def)
  show ?thesis
    using blob_there prf_there
    by (rule sanitize_marks_secrets
               [where h = sample_heap and r = "sample_auth 0" and support = "Some sample_support"
                  and toPlaintext = arrayBufferToPlaintext_std
                  and toBase64String = arrayBufferToBase64String_std])
qed

section \<open>Coin dispatch: an unknown coin\<close>

text \<open>
  Claim C2, as the code has it. For every coin identifier whose upper-cased form is not
  one of the six tags of \<^verbatim>\<open>COIN\<close>, \<^verbatim>\<open>signTransaction\<close> fails with a plain \<^verbatim>\<open>Error\<close> that
  has an empty message and no error code. There is no error kind for an unsupported coin
  among \<^verbatim>\<open>PasskeyErrorCodes\<close>.
\<close>

theorem signTransaction_unknown_coin:
  assumes "toUpperCase (coin params) \<notin> known_coins COIN"
  shows "signTransaction COIN bitcoinPath gnosisPath params = Inl (Error [])
         \<and> code (Error []) = None"
  using assms by (simp add: signTransaction_def known_coins_def Let_def)

text \<open>The identifier \<^verbatim>\<open>doge\<close> against the sample table.\<close>

theorem signTransaction_unknown_coin_witness:
  "toUpperCase (coin (sample_params ''doge'')) \<notin> known_coins sample_COIN
   \<and> signTransaction sample_COIN sample_btc_path sample_eth_path (sample_params ''doge'') =
       Inl (Error [])"
proof -
  have unknown: "toUpperCase (coin (sample_params ''doge'')) \<notin> known_coins sample_COIN"
    using sample_doge_unknown by (simp add: sample_params_def)
  show ?thesis
    using unknown
      signTransaction_unknown_coin
        [where COIN = sample_COIN and params = "sample_params ''doge''"
           and bitcoinPath = sample_btc_path and gnosisPath = sample_eth_path, OF unknown]
    by simp
qed

text \<open>
  The claim as stated asks for a typed error of kind \<^verbatim>\<open>UnsupportedCoin\<close>. For the
  identifier \<^verbatim>\<open>XRP\<close> the call throws \<^verbatim>\<open>new Error()\<close>, which has no kind at all.
\<close>

theorem signTransaction_untyped_counterexample:
  "toUpperCase (coin (sample_params ''XRP'')) \<notin> known_coins sample_COIN
   \<and> signTransaction sample_COIN sample_btc_path sample_eth_path (sample_params ''XRP'') =
       Inl (Error [])
   \<and> code (Error []) = None"
  by code_simp

section \<open>The codec: encoding then decoding\<close>

text \<open>
  Claim C3. For every valid mnemonic \<open>m\<close>, encoding \<open>m\<close> at version \<^verbatim>\<open>V1\<close> succeeds and
  decoding the blob returns exactly the seed phrase \<open>m\<close> with version \<^verbatim>\<open>V1\<close>, without a
  warning. The transport encoding and the validator are the parameters of the codec; the
  hypotheses say what the round trip needs of them: the encoding of \<open>m\<close> decodes back to
  \<open>m\<close> and does not contain the delimiter, and the blob is not itself a valid mnemonic
  (a mnemonic is made of words and spaces, the blob contains a dot).
\<close>

theorem encode_decode_roundtrip:
  assumes "validateMnemonic m"
    and "\<not> validateMnemonic (transportEncode m @ [SEED_VERSION_DELIMITER] @ V1)"
    and "SEED_VERSION_DELIMITER \<notin> set (transportEncode m)"
    and "transportDecode (transportEncode m) = Inr m"
  shows "encodeSeedPhrase validateMnemonic transportEncode m (Some V1) =
           Inr (transportEncode m @ [SEED_VERSION_DELIMITER] @ V1)
         \<and> decodeSeedPhrase validateMnemonic transportDecode
             (transportEncode m @ [SEED_VERSION_DELIMITER] @ V1) =
           ([], Inr \<lparr>seedPhrase = m, version = Some V1\<rparr>)"
proof -
  have encoded: "encodeSeedPhrase validateMnemonic transportEncode m (Some V1) =
           Inr (transportEncode m @ [SEED_VERSION_DELIMITER] @ V1)"
    using assms(1) by (simp add: encodeSeedPhrase_def isValidSeedPhrase_def)
  have "SEED_VERSION_DELIMITER \<notin> set V1"
    by (simp add: V1_def SEED_VERSION_DELIMITER_def)
  then have "takeWhile (\<lambda>c. c \<noteq> SEED_VERSION_DELIMITER) V1 = V1"
    by auto
  then have "decodeSeedPhrase validateMnemonic transportDecode
           (transportEncode m @ [SEED_VERSION_DELIMITER] @ V1) =
           ([], Inr \<lparr>seedPhrase = m, version = Some V1\<rparr>)"
    using assms(2,3,4)
    by (simp add: decodeSeedPhrase_def isValidSeedPhrase_def destructure2_split_js)
  with encoded show ?thesis
    by simp
qed

text \<open>
  The round trip of a test-vector mnemonic through standard base64, which meets the two
  hypotheses on the encoding for every input.
\<close>

theorem encode_decode_roundtrip_witness:
  "sample_validateMnemonic sample_mnemonic
   \<and> encodeSeedPhrase sample_validateMnemonic utf8ToBase64_std sample_mnemonic (Some V1) =
       Inr (utf8ToBase64_std sample_mnemonic @ [SEED_VERSION_DELIMITER] @ V1)
   \<and> decodeSeedPhrase sample_validateMnemonic base64ToUtf8_std
         (utf8ToBase64_std sample_mnemonic @ [SEED_VERSION_DELIMITER] @ V1) =
       ([], Inr \<lparr>seedPhrase = sample_mnemonic, version = Some V1\<rparr>)"
proof -
  have valid: "sample_validateMnemonic sample_mnemonic"
    by (simp add: sample_validateMnemonic_def)
  have blob: "\<not> sample_validateMnemonic
                 (utf8ToBase64_std sample_mnemonic @ [SEED_VERSION_DELIMITER] @ V1)"
    using sample_mnemonics_no_delimiter
            [of "utf8ToBase64_std sample_mnemonic @ [SEED_VERSION_DELIMITER] @ V1"]
    by auto
  show ?thesis
    using valid
      encode_decode_roundtrip
        [where validateMnemonic = sample_validateMnemonic and m = sample_mnemonic
           and transportEncode = utf8ToBase64_std and transportDecode = base64ToUtf8_std,
         OF valid blob std_codec_no_delimiter std_codec_inverse]
    by simp
qed

section \<open>The codec: unknown versions\<close>

text \<open>
  Claim C4, as the code has it. For every input \<^verbatim>\<open>payload.TAG\<close> that is not itself a
  valid mnemonic, whose payload contains no delimiter and whose tag, read up to its first
  delimiter (the whole tag when it contains none), is not \<^verbatim>\<open>V1\<close>, \<^verbatim>\<open>decodeSeedPhrase\<close>
  fails with the error \<^verbatim>\<open>Unsupported seed phrase version\<close> and returns no seed phrase.
\<close>

theorem decode_unknown_version_fails:
  assumes "SEED_VERSION_DELIMITER \<notin> set payload"
    and "takeWhile (\<lambda>c. c \<noteq> SEED_VERSION_DELIMITER) tag \<noteq> V1"
    and "\<not> validateMnemonic (payload @ [SEED_VERSION_DELIMITER] @ tag)"
  shows "decodeSeedPhrase validateMnemonic transportDecode (payload @ [SEED_VERSION_DELIMITER] @ tag) =
           ([], Inl (Error ''Unsupported seed phrase version''))"
  using assms
  by (simp add: decodeSeedPhrase_def isValidSeedPhrase_def destructure2_split_js)

text \<open>The blob \<^verbatim>\<open>YWJj.V2\<close>.\<close>

theorem decode_unknown_version_fails_witness:
  "decodeSeedPhrase sample_validateMnemonic base64ToUtf8_std (''YWJj'' @ [SEED_VERSION_DELIMITER] @ ''V2'') =
     ([], Inl (Error ''Unsupported seed phrase version''))"
proof -
  have a: "SEED_VERSION_DELIMITER \<notin> set ''YWJj''" by code_simp
  have b: "takeWhile (\<lambda>c. c \<noteq> SEED_VERSION_DELIMITER) ''V2'' \<noteq> V1" by code_simp
  have c: "\<not> sample_validateMnemonic (''YWJj'' @ [SEED_VERSION_DELIMITER] @ ''V2'')" by code_simp
  show ?thesis
    using decode_unknown_version_fails
            [where validateMnemonic = sample_validateMnemonic and payload = "''YWJj''"
               and tag = "''V2''" and transportDecode = base64ToUtf8_std, OF a b c]
    by simp
qed

text \<open>
  The claim as stated fails where the blob has a second delimiter: \<^verbatim>\<open>YWJj.V1.V7\<close> is the
  payload \<^verbatim>\<open>YWJj.V1\<close> followed by the unknown version \<^verbatim>\<open>V7\<close>, it is not a mnemonic, and
  the decoder returns the seed phrase \<^verbatim>\<open>abc\<close> with version \<^verbatim>\<open>V1\<close>.
\<close>

theorem decode_unknown_version_counterexample:
  "''V7'' \<noteq> V1
   \<and> \<not> sample_validateMnemonic (''YWJj.V1'' @ [SEED_VERSION_DELIMITER] @ ''V7'')
   \<and> decodeSeedPhrase sample_validateMnemonic base64ToUtf8_std
         (''YWJj.V1'' @ [SEED_VERSION_DELIMITER] @ ''V7'') =
       ([], Inr \<lparr>seedPhrase = ''abc'', version = Some V1\<rparr>)"
  by code_simp

section \<open>The response sanitizer: capability checks\<close>

text \<open>
  Claim C5, as the code has it. If the profile claims \<^verbatim>\<open>hasLargeBlob\<close> and the blob
  output is absent, the call fails with \<^verbatim>\<open>FAILED_READ\<close>. If the profile claims
  \<^verbatim>\<open>prfSupported\<close>, the pseudo-random-function output is absent and the large-blob check
  passes, the call fails with \<^verbatim>\<open>FAILED_WRITE\<close>. In both cases the heap is the one the
  call started with: the checks come before any write.
\<close>

theorem sanitize_capability_checks:
  "(claims_hasLargeBlob support
      \<and> largeBlob_blob (largeBlob (h (clientExtensionResults r))) = None
    \<longrightarrow> sanitizeAuthenticationResponse toPlaintext toBase64String h r support =
          (h, Inl (PasskeyError
                     ''Failed to read large blob from large-blob-holding credential''
                     FAILED_READ)))
   \<and> (claims_prfSupported support
        \<and> prf_results_first (prf_field (h (clientExtensionResults r))) = None
        \<and> \<not> (claims_hasLargeBlob support
               \<and> largeBlob_blob (largeBlob (h (clientExtensionResults r))) = None)
      \<longrightarrow> sanitizeAuthenticationResponse toPlaintext toBase64String h r support =
            (h, Inl (PasskeyError ''Failed to read PRF from PRF-holding credential''
                       FAILED_WRITE)))"
  by (simp add: sanitizeAuthenticationResponse_def Let_def)

text \<open>
  A response without secret outputs: under a profile claiming both capabilities, and
  under one claiming only the pseudo-random function.
\<close>

theorem sanitize_capability_checks_witness:
  "sanitizeAuthenticationResponse arrayBufferToPlaintext_std arrayBufferToBase64String_std
       sample_heap (sample_auth 1) (Some sample_support) =
     (sample_heap,
      Inl (PasskeyError ''Failed to read large blob from large-blob-holding credential''
             FAILED_READ))
   \<and> sanitizeAuthenticationResponse arrayBufferToPlaintext_std arrayBufferToBase64String_std
         sample_heap (sample_auth 1) (Some (sample_support\<lparr>hasLargeBlob := False\<rparr>)) =
       (sample_heap,
        Inl (PasskeyError ''Failed to read PRF from PRF-holding credential'' FAILED_WRITE))"
  using sanitize_capability_checks
          [where h = sample_heap and r = "sample_auth 1" and support = "Some sample_support"
             and toPlaintext = arrayBufferToPlaintext_std
             and toBase64String = arrayBufferToBase64String_std]
        sanitize_capability_checks
          [where h = sample_heap and r = "sample_auth 1"
             and support = "Some (sample_support\<lparr>hasLargeBlob := False\<rparr>)"
             and toPlaintext = arrayBufferToPlaintext_std
             and toBase64String = arrayBufferToBase64String_std]
  by (simp add: sample_heap_def sample_auth_def sample_results_bare_def sample_support_def
        claims_hasLargeBlob_def claims_prfSupported_def)

text \<open>
  The claim as stated promises \<^verbatim>\<open>FAILED_WRITE\<close> whenever \<^verbatim>\<open>prfSupported\<close> is claimed and
  the output is absent. When the blob is claimed and absent as well, the large-blob check
  comes first and the call fails with \<^verbatim>\<open>FAILED_READ\<close>.
\<close>

theorem sanitize_both_missing_counterexample:
  "claims_prfSupported (Some sample_support)
   \<and> prf_results_first (prf_field (sample_heap (clientExtensionResults (sample_auth 1)))) = None
   \<and> sanitizeAuthenticationResponse arrayBufferToPlaintext_std arrayBufferToBase64String_std
         sample_heap (sample_auth 1) (Some sample_support) =
       (sample_heap,
        Inl (PasskeyError ''Failed to read large blob from large-blob-holding credential''
               FAILED_READ))
   \<and> code (PasskeyError ''Failed to read large blob from large-blob-holding credential''
              FAILED_READ) \<noteq> Some FAILED_WRITE"
  by (simp add: sanitizeAuthenticationResponse_def Let_def sample_heap_def sample_auth_def
        sample_results_bare_def sample_support_def claims_hasLargeBlob_def
        claims_prfSupported_def)

section \<open>The codec: more than one delimiter\<close>

text \<open>
  Claim C6, as the code has it. For every blob with more than one delimiter that is not
  itself a valid mnemonic, \<^verbatim>\<open>decodeSeedPhrase\<close> takes the segment between the first and the
  second delimiter as the version tag, verbatim, and the segment before the first
  delimiter as the payload; what follows the second delimiter is not looked at.
\<close>

theorem decode_splits_at_first_delimiters:
  assumes "SEED_VERSION_DELIMITER \<notin> set payload"
    and "SEED_VERSION_DELIMITER \<notin> set tag"
    and "\<not> validateMnemonic
           (payload @ [SEED_VERSION_DELIMITER] @ tag @ [SEED_VERSION_DELIMITER] @ rest)"
  shows "decodeSeedPhrase validateMnemonic transportDecode
           (payload @ [SEED_VERSION_DELIMITER] @ tag @ [SEED_VERSION_DELIMITER] @ rest) =
         (if tag \<noteq> V1 then ([], Inl (Error ''Unsupported seed phrase version''))
          else (case transportDecode payload of
                  Inl e \<Rightarrow> ([], Inl e)
                | Inr phrase \<Rightarrow> ([], Inr \<lparr>seedPhrase = phrase, version = Some tag\<rparr>)))"
proof -
  have "takeWhile (\<lambda>c. c \<noteq> SEED_VERSION_DELIMITER) (tag @ SEED_VERSION_DELIMITER # rest) = tag"
    using assms(2) by (auto simp: takeWhile_tail)
  then show ?thesis
    using assms(1,3)
    by (simp add: decodeSeedPhrase_def isValidSeedPhrase_def destructure2_split_js)
qed

text \<open>The blob \<^verbatim>\<open>QUJD.V1.V2\<close>.\<close>

theorem decode_splits_at_first_delimiters_witness:
  "decodeSeedPhrase sample_validateMnemonic base64ToUtf8_std
     (''QUJD'' @ [SEED_VERSION_DELIMITER] @ ''V1'' @ [SEED_VERSION_DELIMITER] @ ''V2'') =
     ([], Inr \<lparr>seedPhrase = ''ABC'', version = Some ''V1''\<rparr>)"
proof -
  have a: "SEED_VERSION_DELIMITER \<notin> set ''QUJD''" by code_simp
  have b: "SEED_VERSION_DELIMITER \<notin> set ''V1''" by code_simp
  have c: "\<not> sample_validateMnemonic
               (''QUJD'' @ [SEED_VERSION_DELIMITER] @ ''V1'' @ [SEED_VERSION_DELIMITER] @ ''V2'')"
    by code_simp
  have d: "base64ToUtf8_std ''QUJD'' = Inr ''ABC''" by code_simp
  show ?thesis
    using decode_splits_at_first_delimiters
            [where validateMnemonic = sample_validateMnemonic and payload = "''QUJD''"
               and tag = "''V1''" and rest = "''V2''" and transportDecode = base64ToUtf8_std,
             OF a b c] d
    by (simp add: V1_def)
qed

text \<open>
  The claim as stated takes the segment after the last delimiter as the version tag. On
  \<^verbatim>\<open>QUJD.V1.V2\<close> that reading gives the payload \<^verbatim>\<open>QUJD.V1\<close> and the tag \<^verbatim>\<open>V2\<close>, hence a
  rejection; the code decodes \<^verbatim>\<open>QUJD\<close> under the tag \<^verbatim>\<open>V1\<close>.
\<close>

theorem decode_last_delimiter_counterexample:
  "split_last_delimiter SEED_VERSION_DELIMITER ''QUJD.V1.V2'' = Some (''QUJD.V1'', ''V2'')
   \<and> \<not> sample_validateMnemonic ''QUJD.V1.V2''
   \<and> decodeSeedPhrase_last_delimiter sample_validateMnemonic base64ToUtf8_std ''QUJD.V1.V2'' =
       ([], Inl (Error ''Unsupported seed phrase version''))
   \<and> decodeSeedPhrase sample_validateMnemonic base64ToUtf8_std ''QUJD.V1.V2'' =
       ([], Inr \<lparr>seedPhrase = ''ABC'', version = Some ''V1''\<rparr>)"
  by code_simp

section \<open>The codec: unversioned blobs\<close>

text \<open>
  Claim C7. For every input that is itself a valid mnemonic, \<^verbatim>\<open>decodeSeedPhrase\<close> returns
  that input as the seed phrase, with no version, and writes the compatibility warning
  with \<^verbatim>\<open>console.warn\<close>; it does not throw.
\<close>

theorem decode_legacy_mnemonic:
  assumes "validateMnemonic s"
  shows "decodeSeedPhrase validateMnemonic transportDecode s =
           ([UNVERSIONED_WARNING], Inr \<lparr>seedPhrase = s, version = None\<rparr>)"
  using assms by (simp add: decodeSeedPhrase_def isValidSeedPhrase_def)

text \<open>A test-vector mnemonic stored without a version.\<close>

theorem decode_legacy_mnemonic_witness:
  "sample_validateMnemonic sample_mnemonic
   \<and> decodeSeedPhrase sample_validateMnemonic base64ToUtf8_std sample_mnemonic =
       ([UNVERSIONED_WARNING], Inr \<lparr>seedPhrase = sample_mnemonic, version = None\<rparr>)"
proof -
  have valid: "sample_validateMnemonic sample_mnemonic"
    by (simp add: sample_validateMnemonic_def)
  show ?thesis
    using valid
      decode_legacy_mnemonic
        [where validateMnemonic = sample_validateMnemonic and s = sample_mnemonic
           and transportDecode = base64ToUtf8_std, OF valid]
    by simp
qed

section \<open>Reading the large blob\<close>

text \<open>
  Claim C8. For a ceremony that resolves to a credential, \<^verbatim>\<open>readLargeBlob\<close> fails with the
  error kind \<^verbatim>\<open>FAILED_READ\<close> if and only if the extension results have no \<^verbatim>\<open>largeBlob\<close>
  entry, the entry has no blob, or the blob decodes to the empty string; otherwise it
  returns the decoded, non-empty string.
\<close>

theorem readLargeBlob_failed_read:
  "((\<exists>msg. readLargeBlob toPlaintext (Inr (Some e)) = Inl (PasskeyError msg FAILED_READ))
      \<longleftrightarrow> (nullish (largeBlob e)
           \<or> largeBlob_blob (largeBlob e) = None
           \<or> (\<exists>b. largeBlob_blob (largeBlob e) = Some b \<and> toPlaintext b = [])))
   \<and> (\<forall>b. largeBlob_blob (largeBlob e) = Some b \<and> toPlaintext b \<noteq> []
          \<longrightarrow> readLargeBlob toPlaintext (Inr (Some e)) = Inr (toPlaintext b))"
  by (cases "largeBlob e") (auto simp: readLargeBlob_def Let_def split: option.splits)

text \<open>A stored blob, a missing entry, and an entry with an empty blob.\<close>

theorem readLargeBlob_failed_read_witness:
  "readLargeBlob arrayBufferToPlaintext_std (Inr (Some sample_results)) = Inr ''QUJD.V1''
   \<and> (\<exists>msg. readLargeBlob arrayBufferToPlaintext_std (Inr (Some sample_results_bare)) =
              Inl (PasskeyError msg FAILED_READ))
   \<and> (\<exists>msg. readLargeBlob arrayBufferToPlaintext_std
                (Inr (Some (sample_results\<lparr>largeBlob := Val \<lparr>blob = Some []\<rparr>\<rparr>))) =
              Inl (PasskeyError msg FAILED_READ))"
  using readLargeBlob_failed_read
          [where e = sample_results and toPlaintext = arrayBufferToPlaintext_std]
        readLargeBlob_failed_read
          [where e = sample_results_bare and toPlaintext = arrayBufferToPlaintext_std]
        readLargeBlob_failed_read
          [where e = "sample_results\<lparr>largeBlob := Val \<lparr>blob = Some []\<rparr>\<rparr>"
             and toPlaintext = arrayBufferToPlaintext_std]
  by (simp add: sample_results_def sample_results_bare_def arrayBufferToPlaintext_std_def)

section \<open>The response sanitizer: the argument is changed in place\<close>

text \<open>
  Claim C9. A successful call of \<^verbatim>\<open>sanitizeAuthenticationResponse\<close> changes the extension
  results that its argument refers to: afterwards their \<^verbatim>\<open>prf\<close> and \<^verbatim>\<open>largeBlob\<close> members
  hold \<^verbatim>\<open>undefined\<close>, nothing else in the heap differs, and the sanitized copy refers to
  the same object. A call that throws leaves the heap as it was.
\<close>

theorem sanitize_mutates_argument:
  "(\<forall>h' res.
      sanitizeAuthenticationResponse toPlaintext toBase64String h r support = (h', Inr res)
      \<longrightarrow> clientExtensionResults (sanitizedAuthenticationResponse res) = clientExtensionResults r
          \<and> h' = h(clientExtensionResults r :=
                     (h (clientExtensionResults r))\<lparr>prf_field := Undefined, largeBlob := Undefined\<rparr>))
   \<and> (\<forall>h' e.
        sanitizeAuthenticationResponse toPlaintext toBase64String h r support = (h', Inl e)
        \<longrightarrow> h' = h)"
  by (auto simp: sanitizeAuthenticationResponse_def Let_def split: if_splits)

text \<open>
  The sample response: after the call, the object at its address has lost both secret
  outputs, and the heap is not the one the call started with.
\<close>

theorem sanitize_mutates_argument_witness:
  "\<exists>h' res.
     sanitizeAuthenticationResponse arrayBufferToPlaintext_std arrayBufferToBase64String_std
         sample_heap (sample_auth 0) (Some sample_support) = (h', Inr res)
     \<and> clientExtensionResults (sanitizedAuthenticationResponse res) =
         clientExtensionResults (sample_auth 0)
     \<and> sample_heap (clientExtensionResults (sample_auth 0)) = sample_results
     \<and> h' (clientExtensionResults (sample_auth 0)) =
         sample_results\<lparr>prf_field := Undefined, largeBlob := Undefined\<rparr>
     \<and> h' \<noteq> sample_heap"
proof -
  let ?h' = "sample_heap(0 := \<lparr>prf_field = Undefined, largeBlob = Undefined,
                                 otherExtensions = [(''credProps'', ''rk'')]\<rparr>)"
  let ?res = "\<lparr>sanitizedAuthenticationResponse = sample_auth 0,
               result_largeBlob = Some ''QUJD.V1'',
               result_prf = Some ''cHJmLXNlY3JldA==''\<rparr>"
  have aliased:
    "clientExtensionResults (sanitizedAuthenticationResponse ?res) =
       clientExtensionResults (sample_auth 0)
     \<and> ?h' = sample_heap(clientExtensionResults (sample_auth 0) :=
                 (sample_heap (clientExtensionResults (sample_auth 0)))
                   \<lparr>prf_field := Undefined, largeBlob := Undefined\<rparr>)"
    using sanitize_mutates_argument
            [where h = sample_heap and r = "sample_auth 0" and support = "Some sample_support"
               and toPlaintext = arrayBufferToPlaintext_std
               and toBase64String = arrayBufferToBase64String_std]
          sample_sanitize_run
    by blast
  have at0: "sample_heap (clientExtensionResults (sample_auth 0)) = sample_results"
    by (simp add: sample_heap_def sample_auth_def)
  have changed: "?h' \<noteq> sample_heap"
  proof
    assume "?h' = sample_heap"
    then have "?h' 0 = sample_heap 0" by simp
    then show False by (simp add: sample_heap_def sample_results_def)
  qed
  from aliased at0 have "?h' (clientExtensionResults (sample_auth 0)) =
      sample_results\<lparr>prf_field := Undefined, largeBlob := Undefined\<rparr>"
    by (simp add: sample_auth_def sample_results_def)
  with sample_sanitize_run aliased at0 changed show ?thesis
    by blast
qed

section \<open>Key export: purpose zero\<close>

text \<open>
  Claim C10. \<^verbatim>\<open>exportXpub\<close> with \<^verbatim>\<open>hardenedKeyPathPurpose\<close> equal to 0 does what it does
  with no purpose at all: when it succeeds, the key it returns is the neutered key of the
  master node, and no path is derived.
\<close>

theorem exportXpub_purpose_zero:
  "exportXpub validateMnemonic transportEncode writeBlob lib generated
       (params\<lparr>hardenedKeyPathPurpose := Some 0\<rparr>) =
     exportXpub validateMnemonic transportEncode writeBlob lib generated
       (params\<lparr>hardenedKeyPathPurpose := None\<rparr>)
   \<and> (\<forall>res. exportXpub validateMnemonic transportEncode writeBlob lib generated
               (params\<lparr>hardenedKeyPathPurpose := Some 0\<rparr>) = Inr res
          \<longrightarrow> xpub res = toXpub lib (fromSeed lib (mnemonicToSeedSync lib generated)))"
  by (auto simp: exportXpub_def Let_def split: sum.splits)

text \<open>
  With the sample key library the key for purpose 0 is the master key, which differs
  from the key of the subtree \<^verbatim>\<open>m/0'\<close>.
\<close>

theorem exportXpub_purpose_zero_witness:
  "exportXpub sample_validateMnemonic utf8ToBase64_std sample_writeLargeBlob sample_hd
       sample_mnemonic (sample_export (Some 0)) =
     exportXpub sample_validateMnemonic utf8ToBase64_std sample_writeLargeBlob sample_hd
       sample_mnemonic (sample_export None)
   \<and> (\<exists>res. exportXpub sample_validateMnemonic utf8ToBase64_std sample_writeLargeBlob sample_hd
               sample_mnemonic (sample_export (Some 0)) = Inr res
          \<and> xpub res = toXpub sample_hd (fromSeed sample_hd (mnemonicToSeedSync sample_hd sample_mnemonic))
          \<and> xpub res \<noteq>
              toXpub sample_hd
                (derivePath sample_hd
                   (fromSeed sample_hd (mnemonicToSeedSync sample_hd sample_mnemonic))
                   (''m/'' @ string_of_int 0 @ [CHR 0x27])))"
proof -
  have zero: "(sample_export None)\<lparr>hardenedKeyPathPurpose := Some 0\<rparr> = sample_export (Some 0)"
    and none: "(sample_export None)\<lparr>hardenedKeyPathPurpose := None\<rparr> = sample_export None"
    by (simp_all add: sample_export_def)
  have differs:
    "toXpub sample_hd (fromSeed sample_hd (mnemonicToSeedSync sample_hd sample_mnemonic)) \<noteq>
       toXpub sample_hd
         (derivePath sample_hd
            (fromSeed sample_hd (mnemonicToSeedSync sample_hd sample_mnemonic))
            (''m/'' @ string_of_int 0 @ [CHR 0x27]))"
    by (simp add: sample_hd_def)
  let ?res = "\<lparr>xpub = ''xpub:m<seed('' @ sample_mnemonic @ '')>'',
               authenticationResponse = sample_auth 0, blobVersion = V1\<rparr>"
  have inst:
    "exportXpub sample_validateMnemonic utf8ToBase64_std sample_writeLargeBlob sample_hd
         sample_mnemonic (sample_export (Some 0)) =
       exportXpub sample_validateMnemonic utf8ToBase64_std sample_writeLargeBlob sample_hd
         sample_mnemonic (sample_export None)
     \<and> (\<forall>res. exportXpub sample_validateMnemonic utf8ToBase64_std sample_writeLargeBlob
                 sample_hd sample_mnemonic (sample_export (Some 0)) = Inr res
            \<longrightarrow> xpub res =
                toXpub sample_hd
                  (fromSeed sample_hd (mnemonicToSeedSync sample_hd sample_mnemonic)))"
    by (rule exportXpub_purpose_zero
               [where validateMnemonic = sample_validateMnemonic
                  and transportEncode = utf8ToBase64_std and writeBlob = sample_writeLargeBlob
                  and lib = sample_hd and generated = sample_mnemonic
                  and params = "sample_export None", unfolded zero none])
  then have master:
    "xpub ?res =
       toXpub sample_hd (fromSeed sample_hd (mnemonicToSeedSync sample_hd sample_mnemonic))"
    using sample_export_run by blast
  with inst sample_export_run differs show ?thesis
    by metis
qed

end
